theory Spec2Isabelle
  imports Complex_Main
begin

section \<open>Module constants of \<^verbatim>\<open>scripts/pid_official.py\<close>\<close>

text \<open>
  Python floats are modelled in layers. The first model takes every float to be a real
  number and every operation to be exact; it describes the runs in which all values are
  numbers and no rounding matters. Two further models refine it where a property depends
  on what a float is: one adds the value NaN to the pose handler, one rounds the steps of
  \<^verbatim>\<open>angle_wrap\<close> as double precision does. Infinities, overflow and subnormal numbers are
  outside this development.
\<close>

definition ERR_EPSILON :: real where
  "ERR_EPSILON = 0.2"

definition HEADING_BIAS :: real where
  "HEADING_BIAS = 0.04"

definition X_ARG :: nat where
  "X_ARG = 1"

definition Y_ARG :: nat where
  "Y_ARG = 2"

section \<open>PIDController\<close>

text \<open>
  The object's attributes are the fields of a record. Every method that reads the wall
  clock (\<^verbatim>\<open>time.time()\<close>) takes that reading as an extra argument, and every method
  that mutates the object returns the updated record.
\<close>

record PIDController =
  kp :: real
  ki :: real
  kd :: real
  integral :: real
  last_error :: real
  last_time :: real

definition PIDController_init :: "real \<Rightarrow> real \<Rightarrow> real \<Rightarrow> real \<Rightarrow> PIDController" where
  "PIDController_init p i d now =
     \<lparr>kp = p, ki = i, kd = d, integral = 0, last_error = 0, last_time = now\<rparr>"

definition reset :: "PIDController \<Rightarrow> real \<Rightarrow> PIDController" where
  "reset self now = self\<lparr>integral := 0, last_error := 0, last_time := now\<rparr>"

definition update :: "PIDController \<Rightarrow> real \<Rightarrow> real \<Rightarrow> real \<times> PIDController" where
  "update self err current_time =
     (let dt = current_time - last_time self;
          de = err - last_error self;
          self1 = self\<lparr>integral := integral self + err * dt\<rparr>;
          derivative = (if dt > 0 then de / dt else 0);
          output = kp self1 * err + ki self1 * integral self1 + kd self1 * derivative;
          self2 = self1\<lparr>last_error := err\<rparr>;
          self3 = self2\<lparr>last_time := current_time\<rparr>
      in (output, self3))"

text \<open>
  Successive calls of \<^verbatim>\<open>update\<close> on one controller, each with its error value and the
  clock reading taken inside the call; the result lists the controller after each call.
\<close>

fun update_trace :: "PIDController \<Rightarrow> (real \<times> real) list \<Rightarrow> PIDController list" where
  "update_trace self [] = []"
| "update_trace self ((err, now) # rest) =
     (let self' = snd (update self err now) in self' # update_trace self' rest)"

section \<open>Angle arithmetic\<close>

text \<open>
  \<^verbatim>\<open>math.atan2(y, x)\<close> and \<^verbatim>\<open>math.hypot(x, y)\<close> of the Python standard library, on the
  reals: the angle of the point \<open>(x, y)\<close> in \<open>(-\<pi>, \<pi>]\<close>, with \<open>atan2(0, 0) = 0\<close>.
\<close>

definition atan2 :: "real \<Rightarrow> real \<Rightarrow> real" where
  "atan2 y x =
     (if x > 0 then arctan (y / x)
      else if x < 0 then (if y \<ge> 0 then arctan (y / x) + pi else arctan (y / x) - pi)
      else if y > 0 then pi / 2
      else if y < 0 then - (pi / 2)
      else 0)"

definition hypot :: "real \<Rightarrow> real \<Rightarrow> real" where
  "hypot x y = sqrt (x * x + y * y)"

definition euler_from_quaternion :: "real \<Rightarrow> real \<Rightarrow> real \<Rightarrow> real \<Rightarrow> real \<times> real \<times> real" where
  "euler_from_quaternion x y z w =
     (let t0 = 2 * (w * x + y * z);
          t1 = 1 - 2 * (x * x + y * y);
          roll_x = atan2 t0 t1;
          t2 = 2 * (w * y - z * x);
          t2 = (if t2 > 1 then 1 else t2);
          t2 = (if t2 < - 1 then - 1 else t2);
          pitch_y = arcsin t2;
          t3 = 2 * (w * z + x * y);
          t4 = 1 - 2 * (y * y + z * z);
          yaw_z = atan2 t3 t4
      in (roll_x, pitch_y, yaw_z))"

text \<open>
  The two \<^verbatim>\<open>while\<close> loops of \<^verbatim>\<open>angle_wrap\<close>, one recursive function each, with exact
  steps of \<open>2\<pi>\<close>. With exact steps the number of steps still to go,
  \<open>\<lceil>(angle - \<pi>) / 2\<pi>\<rceil>\<close> for the first loop and \<open>\<lceil>(- angle - \<pi>) / 2\<pi>\<rceil>\<close> for the second,
  decreases with every iteration. These functions give the value \<^verbatim>\<open>angle_wrap\<close> returns
  when its steps are exact; whether the loops of the program end is a matter of the
  rounded steps, modelled by \<open>angle_wrap_d\<close> below.
\<close>

function angle_wrap_loop1 :: "real \<Rightarrow> real" where
  "angle_wrap_loop1 angle =
     (if angle > pi then angle_wrap_loop1 (angle - 2 * pi) else angle)"
  by pat_completeness auto
termination
proof (relation "measure (\<lambda>angle. nat \<lceil>(angle - pi) / (2 * pi)\<rceil>)")
  show "wf (measure (\<lambda>angle. nat \<lceil>(angle - pi) / (2 * pi)\<rceil>))"
    by simp
next
  fix angle :: real
  assume gt: "pi < angle"
  have shift: "(angle - 2 * pi - pi) / (2 * pi) = (angle - pi) / (2 * pi) - 1"
    by (simp add: field_simps)
  have "0 < (angle - pi) / (2 * pi)"
    using gt by simp
  then have "0 < \<lceil>(angle - pi) / (2 * pi)\<rceil>"
    by simp
  then have "nat \<lceil>(angle - pi) / (2 * pi) - 1\<rceil> < nat \<lceil>(angle - pi) / (2 * pi)\<rceil>"
    by simp
  then have "nat \<lceil>(angle - 2 * pi - pi) / (2 * pi)\<rceil> < nat \<lceil>(angle - pi) / (2 * pi)\<rceil>"
    by (simp only: shift)
  then show "(angle - 2 * pi, angle) \<in> measure (\<lambda>angle. nat \<lceil>(angle - pi) / (2 * pi)\<rceil>)"
    by (simp only: in_measure)
qed

function angle_wrap_loop2 :: "real \<Rightarrow> real" where
  "angle_wrap_loop2 angle =
     (if angle < - pi then angle_wrap_loop2 (angle + 2 * pi) else angle)"
  by pat_completeness auto
termination
proof (relation "measure (\<lambda>angle. nat \<lceil>(- angle - pi) / (2 * pi)\<rceil>)")
  show "wf (measure (\<lambda>angle. nat \<lceil>(- angle - pi) / (2 * pi)\<rceil>))"
    by simp
next
  fix angle :: real
  assume lt: "angle < - pi"
  have shift: "(- (angle + 2 * pi) - pi) / (2 * pi) = (- angle - pi) / (2 * pi) - 1"
    by (simp add: field_simps)
  have "0 < (- angle - pi) / (2 * pi)"
    using lt by simp
  then have "0 < \<lceil>(- angle - pi) / (2 * pi)\<rceil>"
    by simp
  then have "nat \<lceil>(- angle - pi) / (2 * pi) - 1\<rceil> < nat \<lceil>(- angle - pi) / (2 * pi)\<rceil>"
    by simp
  then have "nat \<lceil>(- (angle + 2 * pi) - pi) / (2 * pi)\<rceil> < nat \<lceil>(- angle - pi) / (2 * pi)\<rceil>"
    by (simp only: shift)
  then show "(angle + 2 * pi, angle) \<in> measure (\<lambda>angle. nat \<lceil>(- angle - pi) / (2 * pi)\<rceil>)"
    by (simp only: in_measure)
qed

definition angle_wrap :: "real \<Rightarrow> real" where
  "angle_wrap angle = angle_wrap_loop2 (angle_wrap_loop1 angle)"

text \<open>
  The same two loops with a counter in place of the angle: how many times each loop body
  runs when the steps are exact. The guards and the steps are those of the loops above;
  the counters express the result as the input plus a multiple of \<open>2\<pi>\<close>.
\<close>

function angle_wrap_iters1 :: "real \<Rightarrow> nat" where
  "angle_wrap_iters1 angle =
     (if angle > pi then Suc (angle_wrap_iters1 (angle - 2 * pi)) else 0)"
  by pat_completeness auto
termination
proof (relation "measure (\<lambda>angle. nat \<lceil>(angle - pi) / (2 * pi)\<rceil>)")
  show "wf (measure (\<lambda>angle. nat \<lceil>(angle - pi) / (2 * pi)\<rceil>))"
    by simp
next
  fix angle :: real
  assume gt: "pi < angle"
  have shift: "(angle - 2 * pi - pi) / (2 * pi) = (angle - pi) / (2 * pi) - 1"
    by (simp add: field_simps)
  have "0 < (angle - pi) / (2 * pi)"
    using gt by simp
  then have "0 < \<lceil>(angle - pi) / (2 * pi)\<rceil>"
    by simp
  then have "nat \<lceil>(angle - pi) / (2 * pi) - 1\<rceil> < nat \<lceil>(angle - pi) / (2 * pi)\<rceil>"
    by simp
  then have "nat \<lceil>(angle - 2 * pi - pi) / (2 * pi)\<rceil> < nat \<lceil>(angle - pi) / (2 * pi)\<rceil>"
    by (simp only: shift)
  then show "(angle - 2 * pi, angle) \<in> measure (\<lambda>angle. nat \<lceil>(angle - pi) / (2 * pi)\<rceil>)"
    by (simp only: in_measure)
qed

function angle_wrap_iters2 :: "real \<Rightarrow> nat" where
  "angle_wrap_iters2 angle =
     (if angle < - pi then Suc (angle_wrap_iters2 (angle + 2 * pi)) else 0)"
  by pat_completeness auto
termination
proof (relation "measure (\<lambda>angle. nat \<lceil>(- angle - pi) / (2 * pi)\<rceil>)")
  show "wf (measure (\<lambda>angle. nat \<lceil>(- angle - pi) / (2 * pi)\<rceil>))"
    by simp
next
  fix angle :: real
  assume lt: "angle < - pi"
  have shift: "(- (angle + 2 * pi) - pi) / (2 * pi) = (- angle - pi) / (2 * pi) - 1"
    by (simp add: field_simps)
  have "0 < (- angle - pi) / (2 * pi)"
    using lt by simp
  then have "0 < \<lceil>(- angle - pi) / (2 * pi)\<rceil>"
    by simp
  then have "nat \<lceil>(- angle - pi) / (2 * pi) - 1\<rceil> < nat \<lceil>(- angle - pi) / (2 * pi)\<rceil>"
    by simp
  then have "nat \<lceil>(- (angle + 2 * pi) - pi) / (2 * pi)\<rceil> < nat \<lceil>(- angle - pi) / (2 * pi)\<rceil>"
    by (simp only: shift)
  then show "(angle + 2 * pi, angle) \<in> measure (\<lambda>angle. nat \<lceil>(- angle - pi) / (2 * pi)\<rceil>)"
    by (simp only: in_measure)
qed

section \<open>JetRacerController\<close>

text \<open>
  A \<^verbatim>\<open>PoseStamped\<close> message, reduced to the fields the handler reads. The controller
  holds the goal (the two entries of the list \<^verbatim>\<open>GOAL\<close>) and its two PID controllers; the
  two publishers are modelled by the pair of values the handler publishes, and the
  handler's \<^verbatim>\<open>print\<close> is left out. The subtractions \<^verbatim>\<open>self.goal[0] - x\<close> and
  \<^verbatim>\<open>self.goal[1] - y\<close> need numeric goal entries, so the controller's goal is a pair
  of reals.
\<close>

record PoseStamped =
  position_x :: real
  position_y :: real
  orientation_x :: real
  orientation_y :: real
  orientation_z :: real
  orientation_w :: real

record JetRacerController =
  goal :: "real \<times> real"
  heading_pid :: PIDController
  distance_pid :: PIDController

record ControlOutput =
  steering :: real
  throttle :: real

definition JetRacerController_init :: "real \<times> real \<Rightarrow> real \<Rightarrow> real \<Rightarrow> JetRacerController" where
  "JetRacerController_init GOAL now1 now2 =
     \<lparr>goal = GOAL,
      heading_pid = PIDController_init 0.3 0.0 0.02 now1,
      distance_pid = PIDController_init 0.25 0.0 0.4 now2\<rparr>"

text \<open>
  Lines 65 to 75 of \<^verbatim>\<open>pose_callback\<close>: the heading error and the distance to the goal
  that the handler computes from the message and the goal.
\<close>

definition pose_errors :: "JetRacerController \<Rightarrow> PoseStamped \<Rightarrow> real \<times> real" where
  "pose_errors self msg =
     (let x = position_x msg;
          y = position_y msg;
          (_, _, yaw) = euler_from_quaternion (orientation_x msg) (orientation_y msg)
                          (orientation_z msg) (orientation_w msg);
          dx = fst (goal self) - x;
          dy = snd (goal self) - y;
          goal_dist = hypot dx dy;
          goal_heading = atan2 dy dx;
          heading_error = angle_wrap (goal_heading - yaw)
      in (heading_error, goal_dist))"

text \<open>
  The whole handler. \<open>now1\<close> and \<open>now2\<close> are the clock readings of the two \<^verbatim>\<open>update\<close>
  calls, in the order the handler makes them. On real numbers \<^verbatim>\<open>max\<close> and \<^verbatim>\<open>min\<close> are
  the lattice operations; what they do with NaN is in \<open>pose_callback_f\<close> below.
\<close>

definition pose_callback ::
  "JetRacerController \<Rightarrow> PoseStamped \<Rightarrow> real \<Rightarrow> real \<Rightarrow> ControlOutput \<times> JetRacerController" where
  "pose_callback self msg now1 now2 =
     (let (heading_error, goal_dist) = pose_errors self msg;
          (steering0, heading_pid') = update (heading_pid self) heading_error now1;
          (throttle0, distance_pid') = update (distance_pid self) goal_dist now2;
          steering1 = max (min (steering0 + HEADING_BIAS) 1.0) (- 1.0);
          throttle1 = (if goal_dist > ERR_EPSILON then max (min throttle0 0.2) 0.0 else 0.0)
      in (\<lparr>steering = steering1, throttle = throttle1\<rparr>,
          self\<lparr>heading_pid := heading_pid', distance_pid := distance_pid'\<rparr>))"

section \<open>Process start\<close>

text \<open>
  \<^verbatim>\<open>main(argc, argv)\<close> writes the global list \<^verbatim>\<open>GOAL\<close>, whose entries are the integers
  of its initial value or the argument strings stored by \<^verbatim>\<open>main\<close>. The result records
  what was printed, the list afterwards, whether the controller was constructed (which
  subscribes to the pose topic) and how the call ended.
\<close>

datatype py_error = IndexError

datatype goal_entry = GInt int | GStr string

datatype main_outcome = Returned | Raised py_error | Spinning

record main_result =
  printed :: "string list"
  GOAL_after :: "goal_entry list"
  subscribed :: bool
  outcome :: main_outcome

definition USAGE :: string where
  "USAGE = ''USAGE: python3 pid_official.py [x_coordinate] [y_coordinate]''"

definition main :: "int \<Rightarrow> string list \<Rightarrow> goal_entry list \<Rightarrow> main_result" where
  "main argc argv GOAL =
     (if argc \<noteq> 2 then
        \<lparr>printed = [USAGE], GOAL_after = GOAL, subscribed = False, outcome = Returned\<rparr>
      else if \<not> X_ARG < length argv then
        \<lparr>printed = [], GOAL_after = GOAL, subscribed = False, outcome = Raised IndexError\<rparr>
      else
        (let GOAL1 = GOAL[0 := GStr (argv ! X_ARG)] in
         if \<not> Y_ARG < length argv then
           \<lparr>printed = [], GOAL_after = GOAL1, subscribed = False, outcome = Raised IndexError\<rparr>
         else
           (let GOAL2 = GOAL1[1 := GStr (argv ! Y_ARG)] in
            \<lparr>printed = [], GOAL_after = GOAL2, subscribed = True, outcome = Spinning\<rparr>)))"

text \<open>
  The \<^verbatim>\<open>__main__\<close> block: \<^verbatim>\<open>main(len(sys.argv), sys.argv)\<close>, with \<^verbatim>\<open>GOAL = [0, 0]\<close> as the
  module sets it.
\<close>

definition script_entry :: "string list \<Rightarrow> main_result" where
  "script_entry argv = main (int (length argv)) argv [GInt 0, GInt 0]"

section \<open>The pose handler on floats with NaN\<close>

text \<open>
  A Python float that is a number or NaN. Arithmetic on numbers is that of the reals;
  an operation with a NaN operand gives NaN.
\<close>

datatype pyfloat = Num real | NaN

fun py_add :: "pyfloat \<Rightarrow> pyfloat \<Rightarrow> pyfloat" where
  "py_add (Num a) (Num b) = Num (a + b)"
| "py_add _ _ = NaN"

fun py_sub :: "pyfloat \<Rightarrow> pyfloat \<Rightarrow> pyfloat" where
  "py_sub (Num a) (Num b) = Num (a - b)"
| "py_sub _ _ = NaN"

fun py_mul :: "pyfloat \<Rightarrow> pyfloat \<Rightarrow> pyfloat" where
  "py_mul (Num a) (Num b) = Num (a * b)"
| "py_mul _ _ = NaN"

fun py_div :: "pyfloat \<Rightarrow> pyfloat \<Rightarrow> pyfloat" where
  "py_div (Num a) (Num b) = Num (a / b)"
| "py_div _ _ = NaN"

text \<open>
  The only division of the program, in \<^verbatim>\<open>update\<close>, is guarded by \<^verbatim>\<open>dt > 0\<close>, so the
  \<^verbatim>\<open>ZeroDivisionError\<close> of Python's \<^verbatim>\<open>/\<close> cannot occur. A comparison with a NaN operand
  is false.
\<close>

fun py_lt :: "pyfloat \<Rightarrow> pyfloat \<Rightarrow> bool" where
  "py_lt (Num a) (Num b) = (a < b)"
| "py_lt _ _ = False"

fun py_le :: "pyfloat \<Rightarrow> pyfloat \<Rightarrow> bool" where
  "py_le (Num a) (Num b) = (a \<le> b)"
| "py_le _ _ = False"

definition py_gt :: "pyfloat \<Rightarrow> pyfloat \<Rightarrow> bool" where
  "py_gt a b = py_lt b a"

text \<open>
  Python's \<^verbatim>\<open>min(a, b)\<close> returns \<open>b\<close> if \<^verbatim>\<open>b < a\<close> and \<open>a\<close> otherwise; \<^verbatim>\<open>max(a, b)\<close> returns
  \<open>b\<close> if \<^verbatim>\<open>b > a\<close> and \<open>a\<close> otherwise. With a NaN first argument both comparisons are false
  and the NaN is returned.
\<close>

definition py_min :: "pyfloat \<Rightarrow> pyfloat \<Rightarrow> pyfloat" where
  "py_min a b = (if py_lt b a then b else a)"

definition py_max :: "pyfloat \<Rightarrow> pyfloat \<Rightarrow> pyfloat" where
  "py_max a b = (if py_gt b a then b else a)"

text \<open>
  \<^verbatim>\<open>math.hypot\<close>, \<^verbatim>\<open>math.atan2\<close> and \<^verbatim>\<open>math.asin\<close> return NaN for a NaN argument. The
  argument of \<^verbatim>\<open>math.asin\<close> is clamped to \<open>[-1, 1]\<close> by the caller when it is a number.
\<close>

fun py_hypot :: "pyfloat \<Rightarrow> pyfloat \<Rightarrow> pyfloat" where
  "py_hypot (Num a) (Num b) = Num (hypot a b)"
| "py_hypot _ _ = NaN"

fun py_atan2 :: "pyfloat \<Rightarrow> pyfloat \<Rightarrow> pyfloat" where
  "py_atan2 (Num a) (Num b) = Num (atan2 a b)"
| "py_atan2 _ _ = NaN"

fun py_asin :: "pyfloat \<Rightarrow> pyfloat" where
  "py_asin (Num a) = Num (arcsin a)"
| "py_asin NaN = NaN"

text \<open>
  \<^verbatim>\<open>PIDController\<close> again, every attribute and the clock reading a float. The definitions
  follow the source line by line, as those of the first model do.
\<close>

record PIDController_f =
  kp_f :: pyfloat
  ki_f :: pyfloat
  kd_f :: pyfloat
  integral_f :: pyfloat
  last_error_f :: pyfloat
  last_time_f :: pyfloat

definition PIDController_init_f :: "pyfloat \<Rightarrow> pyfloat \<Rightarrow> pyfloat \<Rightarrow> pyfloat \<Rightarrow> PIDController_f" where
  "PIDController_init_f p i d now =
     \<lparr>kp_f = p, ki_f = i, kd_f = d, integral_f = Num 0, last_error_f = Num 0, last_time_f = now\<rparr>"

definition update_f :: "PIDController_f \<Rightarrow> pyfloat \<Rightarrow> pyfloat \<Rightarrow> pyfloat \<times> PIDController_f" where
  "update_f self err current_time =
     (let dt = py_sub current_time (last_time_f self);
          de = py_sub err (last_error_f self);
          self1 = self\<lparr>integral_f := py_add (integral_f self) (py_mul err dt)\<rparr>;
          derivative = (if py_gt dt (Num 0) then py_div de dt else Num 0);
          output = py_add (py_add (py_mul (kp_f self1) err) (py_mul (ki_f self1) (integral_f self1)))
                     (py_mul (kd_f self1) derivative);
          self2 = self1\<lparr>last_error_f := err\<rparr>;
          self3 = self2\<lparr>last_time_f := current_time\<rparr>
      in (output, self3))"

text \<open>
  Both loop guards of \<^verbatim>\<open>angle_wrap\<close> are false for NaN, which is returned at once.
\<close>

fun angle_wrap_f :: "pyfloat \<Rightarrow> pyfloat" where
  "angle_wrap_f (Num angle) = Num (angle_wrap angle)"
| "angle_wrap_f NaN = NaN"

definition euler_from_quaternion_f ::
  "pyfloat \<Rightarrow> pyfloat \<Rightarrow> pyfloat \<Rightarrow> pyfloat \<Rightarrow> pyfloat \<times> pyfloat \<times> pyfloat" where
  "euler_from_quaternion_f x y z w =
     (let t0 = py_mul (Num 2) (py_add (py_mul w x) (py_mul y z));
          t1 = py_sub (Num 1) (py_mul (Num 2) (py_add (py_mul x x) (py_mul y y)));
          roll_x = py_atan2 t0 t1;
          t2 = py_mul (Num 2) (py_sub (py_mul w y) (py_mul z x));
          t2 = (if py_gt t2 (Num 1) then Num 1 else t2);
          t2 = (if py_lt t2 (Num (- 1)) then Num (- 1) else t2);
          pitch_y = py_asin t2;
          t3 = py_mul (Num 2) (py_add (py_mul w z) (py_mul x y));
          t4 = py_sub (Num 1) (py_mul (Num 2) (py_add (py_mul y y) (py_mul z z)));
          yaw_z = py_atan2 t3 t4
      in (roll_x, pitch_y, yaw_z))"

record PoseStamped_f =
  position_x_f :: pyfloat
  position_y_f :: pyfloat
  orientation_x_f :: pyfloat
  orientation_y_f :: pyfloat
  orientation_z_f :: pyfloat
  orientation_w_f :: pyfloat

record JetRacerController_f =
  goal_f :: "pyfloat \<times> pyfloat"
  heading_pid_f :: PIDController_f
  distance_pid_f :: PIDController_f

record ControlOutput_f =
  steering_f :: pyfloat
  throttle_f :: pyfloat

definition JetRacerController_init_f ::
  "pyfloat \<times> pyfloat \<Rightarrow> pyfloat \<Rightarrow> pyfloat \<Rightarrow> JetRacerController_f" where
  "JetRacerController_init_f GOAL now1 now2 =
     \<lparr>goal_f = GOAL,
      heading_pid_f = PIDController_init_f (Num 0.3) (Num 0.0) (Num 0.02) now1,
      distance_pid_f = PIDController_init_f (Num 0.25) (Num 0.0) (Num 0.4) now2\<rparr>"

definition pose_errors_f :: "JetRacerController_f \<Rightarrow> PoseStamped_f \<Rightarrow> pyfloat \<times> pyfloat" where
  "pose_errors_f self msg =
     (let x = position_x_f msg;
          y = position_y_f msg;
          (_, _, yaw) = euler_from_quaternion_f (orientation_x_f msg) (orientation_y_f msg)
                          (orientation_z_f msg) (orientation_w_f msg);
          dx = py_sub (fst (goal_f self)) x;
          dy = py_sub (snd (goal_f self)) y;
          goal_dist = py_hypot dx dy;
          goal_heading = py_atan2 dy dx;
          heading_error = angle_wrap_f (py_sub goal_heading yaw)
      in (heading_error, goal_dist))"

definition pose_callback_f ::
  "JetRacerController_f \<Rightarrow> PoseStamped_f \<Rightarrow> pyfloat \<Rightarrow> pyfloat
     \<Rightarrow> ControlOutput_f \<times> JetRacerController_f" where
  "pose_callback_f self msg now1 now2 =
     (let (heading_error, goal_dist) = pose_errors_f self msg;
          (steering0, heading_pid') = update_f (heading_pid_f self) heading_error now1;
          (throttle0, distance_pid') = update_f (distance_pid_f self) goal_dist now2;
          steering1 = py_max (py_min (py_add steering0 (Num HEADING_BIAS)) (Num 1.0)) (Num (- 1.0));
          throttle1 = (if py_gt goal_dist (Num ERR_EPSILON)
                       then py_max (py_min throttle0 (Num 0.2)) (Num 0.0) else Num 0.0)
      in (\<lparr>steering_f = steering1, throttle_f = throttle1\<rparr>,
          self\<lparr>heading_pid_f := heading_pid', distance_pid_f := distance_pid'\<rparr>))"

text \<open>
  The numbers among the floats: a controller, a message and an output of the first model
  as values of this one.
\<close>

definition num_pid :: "PIDController \<Rightarrow> PIDController_f" where
  "num_pid c =
     \<lparr>kp_f = Num (kp c), ki_f = Num (ki c), kd_f = Num (kd c), integral_f = Num (integral c),
      last_error_f = Num (last_error c), last_time_f = Num (last_time c)\<rparr>"

definition num_msg :: "PoseStamped \<Rightarrow> PoseStamped_f" where
  "num_msg m =
     \<lparr>position_x_f = Num (position_x m), position_y_f = Num (position_y m),
      orientation_x_f = Num (orientation_x m), orientation_y_f = Num (orientation_y m),
      orientation_z_f = Num (orientation_z m), orientation_w_f = Num (orientation_w m)\<rparr>"

definition num_controller :: "JetRacerController \<Rightarrow> JetRacerController_f" where
  "num_controller c =
     \<lparr>goal_f = (Num (fst (goal c)), Num (snd (goal c))),
      heading_pid_f = num_pid (heading_pid c), distance_pid_f = num_pid (distance_pid c)\<rparr>"

definition num_output :: "ControlOutput \<Rightarrow> ControlOutput_f" where
  "num_output out = \<lparr>steering_f = Num (steering out), throttle_f = Num (throttle out)\<rparr>"

section \<open>angle_wrap in double precision\<close>

text \<open>
  A double is \<open>m * 2 ^ e\<close> with an integer \<open>m\<close> of at most 53 bits. The result of an
  arithmetic operation is the exact result rounded to the nearest double, a tie going to
  the even \<open>m\<close>: for \<open>2 ^ k \<le> |x| < 2 ^ (k + 1)\<close> the doubles are the multiples of
  \<open>2 ^ (k - 52)\<close>.
\<close>

definition round_even :: "real \<Rightarrow> int" where
  "round_even y =
     (let f = \<lfloor>y\<rfloor>; d = y - of_int f
      in if d < 1 / 2 then f else if d > 1 / 2 then f + 1 else if even f then f else f + 1)"

definition double_round :: "real \<Rightarrow> real" where
  "double_round x =
     (if x = 0 then 0
      else (let e = \<lfloor>log 2 \<bar>x\<bar>\<rfloor> - 52
            in of_int (round_even (x / 2 powr (of_int e))) * 2 powr (of_int e)))"

text \<open>
  \<^verbatim>\<open>math.pi\<close> is the double \<open>884279719003555 / 2 ^ 48\<close>; \<^verbatim>\<open>2 * math.pi\<close> and \<^verbatim>\<open>-math.pi\<close>
  are computed without rounding.
\<close>

definition math_pi :: real where
  "math_pi = 884279719003555 / 2 ^ 48"

text \<open>
  The two loops of \<^verbatim>\<open>angle_wrap\<close> with the rounded steps \<^verbatim>\<open>angle -= 2 * math.pi\<close> and
  \<^verbatim>\<open>angle += 2 * math.pi\<close>, and a counter of the iterations. A loop that never exits has
  the value \<open>None\<close>.
\<close>

partial_function (option) angle_wrap_d_loop1 :: "real \<Rightarrow> nat \<Rightarrow> (real \<times> nat) option" where
  "angle_wrap_d_loop1 angle n =
     (if angle > math_pi then angle_wrap_d_loop1 (double_round (angle - 2 * math_pi)) (Suc n)
      else Some (angle, n))"

partial_function (option) angle_wrap_d_loop2 :: "real \<Rightarrow> nat \<Rightarrow> (real \<times> nat) option" where
  "angle_wrap_d_loop2 angle n =
     (if angle < - math_pi then angle_wrap_d_loop2 (double_round (angle + 2 * math_pi)) (Suc n)
      else Some (angle, n))"

definition angle_wrap_d :: "real \<Rightarrow> (real \<times> nat) option" where
  "angle_wrap_d angle =
     (case angle_wrap_d_loop1 angle 0 of
        None \<Rightarrow> None
      | Some (angle1, n1) \<Rightarrow> angle_wrap_d_loop2 angle1 n1)"

section \<open>Properties of PIDController\<close>

lemma last_time_update: "last_time (snd (update self err now)) = now"
  by (simp add: update_def Let_def)

lemma last_time_update_trace: "map last_time (update_trace self ets) = map snd ets"
  by (induction self ets rule: update_trace.induct) (simp_all add: Let_def last_time_update)

text \<open>
  C6. A call \<^verbatim>\<open>update(error)\<close> with elapsed time \<open>dt = now - last_time\<close> turns the integral
  into \<open>integral + error * dt\<close>, returns \<open>kp * error + ki * integral_new + kd * derivative\<close>
  where the derivative is \<open>(error - last_error) / dt\<close> when \<open>dt > 0\<close> and \<open>0\<close> otherwise,
  and stores the error and the clock reading in \<^verbatim>\<open>last_error\<close> and \<^verbatim>\<open>last_time\<close>; the
  gains are unchanged.
\<close>

theorem update_computes_pid:
  "integral (snd (update self err now)) = integral self + err * (now - last_time self)
   \<and> (now - last_time self > 0 \<longrightarrow>
        fst (update self err now) =
          kp self * err + ki self * (integral self + err * (now - last_time self))
          + kd self * ((err - last_error self) / (now - last_time self)))
   \<and> (\<not> now - last_time self > 0 \<longrightarrow>
        fst (update self err now) =
          kp self * err + ki self * (integral self + err * (now - last_time self)) + kd self * 0)
   \<and> last_error (snd (update self err now)) = err
   \<and> last_time (snd (update self err now)) = now
   \<and> kp (snd (update self err now)) = kp self
   \<and> ki (snd (update self err now)) = ki self
   \<and> kd (snd (update self err now)) = kd self"
  by (simp add: update_def Let_def)

theorem update_computes_pid_witness:
  "(let self = \<lparr>kp = 2, ki = 3, kd = 5, integral = 7, last_error = 1, last_time = 10\<rparr> in
      12 - last_time self > 0
      \<and> fst (update self 4 12) = 2 * 4 + 3 * (7 + 4 * 2) + 5 * ((4 - 1) / 2)
      \<and> \<not> 10 - last_time self > 0
      \<and> fst (update self 4 10) = 2 * 4 + 3 * 7)"
  using update_computes_pid [of "\<lparr>kp = 2, ki = 3, kd = 5, integral = 7, last_error = 1, last_time = 10\<rparr>" 4 12]
    update_computes_pid [of "\<lparr>kp = 2, ki = 3, kd = 5, integral = 7, last_error = 1, last_time = 10\<rparr>" 4 10]
  by (simp add: Let_def)

text \<open>
  C7. After \<^verbatim>\<open>reset()\<close> at time \<open>t0\<close>, a call \<^verbatim>\<open>update(e)\<close> returns the same output and
  leaves the same controller as the same call on a controller freshly constructed at
  \<open>t0\<close> with the same gains, whatever the controller held before the reset.
\<close>

theorem reset_then_update_as_fresh:
  "update (reset self t0) err now =
     update (PIDController_init (kp self) (ki self) (kd self) t0) err now"
  by (cases self) (simp add: reset_def PIDController_init_def)

text \<open>
  C9, as the code has it. \<^verbatim>\<open>update\<close> stores the clock reading it took, whatever the
  stored \<^verbatim>\<open>last_time\<close> was: a reading below the stored value lowers \<^verbatim>\<open>last_time\<close>.
\<close>

theorem last_time_decreases_counterexample:
  "\<not> last_time (PIDController_init 1 0 0 10)
       \<le> last_time (snd (update (PIDController_init 1 0 0 10) 1 5))"
  by (simp add: update_def Let_def PIDController_init_def)

text \<open>
  C9, amended. Across successive \<^verbatim>\<open>update\<close> calls on one controller the stored
  \<^verbatim>\<open>last_time\<close> after each call is the clock reading of that call; so the stored values
  are non-decreasing whenever the clock readings, starting from the stored \<^verbatim>\<open>last_time\<close>,
  are non-decreasing.
\<close>

theorem last_time_follows_clock:
  "map last_time (update_trace self ets) = map snd ets
   \<and> (sorted (last_time self # map snd ets) \<longrightarrow>
        sorted (map last_time (self # update_trace self ets)))"
  by (simp add: last_time_update_trace)

theorem last_time_follows_clock_witness:
  "sorted (last_time (PIDController_init 1 0 0 10) # map snd [(1::real, 11::real), (2, 11), (3, 15)])
   \<and> map last_time (update_trace (PIDController_init 1 0 0 10) [(1, 11), (2, 11), (3, 15)])
       = [11, 11, 15]
   \<and> sorted (map last_time (PIDController_init 1 0 0 10
                # update_trace (PIDController_init 1 0 0 10) [(1, 11), (2, 11), (3, 15)]))"
  using last_time_follows_clock [of "PIDController_init 1 0 0 10" "[(1, 11), (2, 11), (3, 15)]"]
  by (simp add: PIDController_init_def)

text \<open>
  C10. When the elapsed time \<open>dt = now - last_time\<close> is zero or negative, \<^verbatim>\<open>update\<close> still
  adds \<open>error * dt\<close> to the integral (which therefore decreases when \<open>dt < 0\<close> and
  \<open>error > 0\<close>) and still overwrites \<^verbatim>\<open>last_error\<close> and \<^verbatim>\<open>last_time\<close>; only the
  derivative term is dropped from the output.
\<close>

theorem update_nonpositive_dt:
  "now - last_time self \<le> 0 \<Longrightarrow>
     integral (snd (update self err now)) = integral self + err * (now - last_time self)
     \<and> last_error (snd (update self err now)) = err
     \<and> last_time (snd (update self err now)) = now
     \<and> fst (update self err now) = kp self * err + ki self * integral (snd (update self err now))
     \<and> (now - last_time self < 0 \<and> err > 0 \<longrightarrow>
          integral (snd (update self err now)) < integral self)"
  by (simp add: update_def Let_def mult_pos_neg)

theorem update_nonpositive_dt_witness:
  "(let self = \<lparr>kp = 2, ki = 3, kd = 5, integral = 7, last_error = 1, last_time = 10\<rparr> in
      8 - last_time self \<le> 0 \<and> 8 - last_time self < 0 \<and> (4::real) > 0
      \<and> integral (snd (update self 4 8)) = - 1
      \<and> integral (snd (update self 4 8)) < integral self
      \<and> last_error (snd (update self 4 8)) = 4
      \<and> last_time (snd (update self 4 8)) = 8
      \<and> fst (update self 4 8) = 5)"
  using update_nonpositive_dt [of 8 "\<lparr>kp = 2, ki = 3, kd = 5, integral = 7, last_error = 1, last_time = 10\<rparr>" 4]
  by (simp add: Let_def)

section \<open>Properties of angle_wrap\<close>

text \<open>
  The defining equations of the loops call themselves, so they are unfolded one step at a
  time, by hand.
\<close>

declare angle_wrap_loop1.simps [simp del] angle_wrap_loop2.simps [simp del]
  angle_wrap_iters1.simps [simp del] angle_wrap_iters2.simps [simp del]

lemma loop1_stop: "angle \<le> pi \<Longrightarrow> angle_wrap_loop1 angle = angle"
  by (subst angle_wrap_loop1.simps) simp

lemma loop2_stop: "- pi \<le> angle \<Longrightarrow> angle_wrap_loop2 angle = angle"
  by (subst angle_wrap_loop2.simps) simp

lemma iters1_stop: "angle \<le> pi \<Longrightarrow> angle_wrap_iters1 angle = 0"
  by (subst angle_wrap_iters1.simps) simp

lemma iters2_stop: "- pi \<le> angle \<Longrightarrow> angle_wrap_iters2 angle = 0"
  by (subst angle_wrap_iters2.simps) simp

lemma loop1_le_pi: "angle_wrap_loop1 angle \<le> pi"
proof (induction angle rule: angle_wrap_loop1.induct)
  case (1 angle)
  show ?case
  proof (cases "pi < angle")
    case True
    with 1 show ?thesis by (subst angle_wrap_loop1.simps) simp
  next
    case False
    then show ?thesis by (simp add: loop1_stop)
  qed
qed

lemma loop1_gt_minus_pi: "- pi < angle \<Longrightarrow> - pi < angle_wrap_loop1 angle"
proof (induction angle rule: angle_wrap_loop1.induct)
  case (1 angle)
  show ?case
  proof (cases "pi < angle")
    case True
    then have "- pi < angle - 2 * pi" by simp
    with 1 True show ?thesis by (subst angle_wrap_loop1.simps) simp
  next
    case False
    with 1 show ?thesis by (simp add: loop1_stop)
  qed
qed

lemma loop2_ge_minus_pi: "- pi \<le> angle_wrap_loop2 angle"
proof (induction angle rule: angle_wrap_loop2.induct)
  case (1 angle)
  show ?case
  proof (cases "angle < - pi")
    case True
    with 1 show ?thesis by (subst angle_wrap_loop2.simps) simp
  next
    case False
    then show ?thesis by (simp add: loop2_stop)
  qed
qed

lemma loop2_le_pi: "angle \<le> pi \<Longrightarrow> angle_wrap_loop2 angle \<le> pi"
proof (induction angle rule: angle_wrap_loop2.induct)
  case (1 angle)
  show ?case
  proof (cases "angle < - pi")
    case True
    then have "angle + 2 * pi \<le> pi" by simp
    with 1 True show ?thesis by (subst angle_wrap_loop2.simps) simp
  next
    case False
    with 1 show ?thesis by (simp add: loop2_stop)
  qed
qed

lemma loop1_iters1: "angle_wrap_loop1 angle = angle - 2 * pi * real (angle_wrap_iters1 angle)"
proof (induction angle rule: angle_wrap_loop1.induct)
  case (1 angle)
  show ?case
  proof (cases "pi < angle")
    case True
    with 1 show ?thesis
      by (subst angle_wrap_loop1.simps, subst angle_wrap_iters1.simps) (simp add: algebra_simps)
  next
    case False
    then show ?thesis by (simp add: loop1_stop iters1_stop)
  qed
qed

lemma loop2_iters2: "angle_wrap_loop2 angle = angle + 2 * pi * real (angle_wrap_iters2 angle)"
proof (induction angle rule: angle_wrap_loop2.induct)
  case (1 angle)
  show ?case
  proof (cases "angle < - pi")
    case True
    with 1 show ?thesis
      by (subst angle_wrap_loop2.simps, subst angle_wrap_iters2.simps) (simp add: algebra_simps)
  next
    case False
    then show ?thesis by (simp add: loop2_stop iters2_stop)
  qed
qed

text \<open>
  C2, as the code has it. The second loop runs while \<open>angle < -\<pi>\<close>, so \<open>-\<pi>\<close> itself is
  returned unchanged: the result at \<open>-\<pi>\<close> is not in the half-open interval \<open>(-\<pi>, \<pi>]\<close>.
\<close>

theorem angle_wrap_minus_pi_counterexample:
  "\<not> (- pi < angle_wrap (- pi) \<and> angle_wrap (- pi) \<le> pi)"
  by (simp add: angle_wrap_def loop1_stop loop2_stop)

text \<open>
  C2, amended. For every real angle \<open>a\<close> the result of \<^verbatim>\<open>angle_wrap\<close> lies in the closed
  interval \<open>[-\<pi>, \<pi>]\<close> and differs from \<open>a\<close> by an integer multiple of \<open>2\<pi>\<close>; it lies in
  \<open>(-\<pi>, \<pi>]\<close> whenever \<open>a > -\<pi>\<close>.
\<close>

theorem angle_wrap_closed_interval:
  "- pi \<le> angle_wrap a \<and> angle_wrap a \<le> pi
   \<and> (\<exists>k::int. angle_wrap a = a + 2 * pi * real_of_int k)
   \<and> (- pi < a \<longrightarrow> - pi < angle_wrap a)"
proof -
  have lower: "- pi \<le> angle_wrap a"
    by (simp add: angle_wrap_def loop2_ge_minus_pi)
  have upper: "angle_wrap a \<le> pi"
    by (simp add: angle_wrap_def loop2_le_pi loop1_le_pi)
  define n1 where "n1 = angle_wrap_iters1 a"
  define n2 where "n2 = angle_wrap_iters2 (angle_wrap_loop1 a)"
  have "angle_wrap a = angle_wrap_loop1 a + 2 * pi * real n2"
    unfolding n2_def angle_wrap_def by (rule loop2_iters2)
  also have "angle_wrap_loop1 a = a - 2 * pi * real n1"
    unfolding n1_def by (rule loop1_iters1)
  finally have "angle_wrap a = a + 2 * pi * real_of_int (int n2 - int n1)"
    by (simp add: algebra_simps)
  then have congr: "\<exists>k::int. angle_wrap a = a + 2 * pi * real_of_int k"
    by blast
  have strict: "- pi < angle_wrap a" if "- pi < a"
  proof -
    have "- pi < angle_wrap_loop1 a"
      using that by (rule loop1_gt_minus_pi)
    then show ?thesis
      by (simp add: angle_wrap_def loop2_stop)
  qed
  from lower upper congr strict show ?thesis
    by blast
qed

theorem angle_wrap_closed_interval_witness:
  "- pi < (3 * pi) \<and> - pi < angle_wrap (3 * pi) \<and> angle_wrap (3 * pi) \<le> pi
   \<and> angle_wrap (3 * pi) = pi"
proof -
  have "angle_wrap_loop1 (3 * pi) = angle_wrap_loop1 pi"
    by (subst angle_wrap_loop1.simps) simp
  then have "angle_wrap (3 * pi) = pi"
    by (simp add: angle_wrap_def loop1_stop loop2_stop)
  then show ?thesis
    using angle_wrap_closed_interval [of "3 * pi"] by simp
qed

section \<open>Properties of the pose handler\<close>

lemma hypot_zero: "hypot 0 0 = 0"
  by (simp add: hypot_def)

lemma atan2_zero: "atan2 0 0 = 0"
  by (simp add: atan2_def)

lemma hypot_axis: "hypot x 0 = \<bar>x\<bar>"
  by (simp add: hypot_def)

lemma throttle_pose_callback:
  "throttle (fst (pose_callback self msg now1 now2)) =
     (if snd (pose_errors self msg) > ERR_EPSILON
      then max (min (fst (update (distance_pid self) (snd (pose_errors self msg)) now2)) 0.2) 0.0
      else 0.0)"
  by (simp add: pose_callback_def Let_def split_def)

text \<open>
  C3, as the code has it. The handler has no case for a pose at the goal: the goal
  heading is \<open>atan2 0 0 = 0\<close> and the yaw is still subtracted. At the goal with the
  orientation \<open>(0, 0, 1, 0)\<close>, a half turn about the vertical axis, the distance error is
  \<open>0\<close> and the heading error is \<open>-\<pi>\<close>, not \<open>0\<close>.
\<close>

theorem heading_error_at_goal_counterexample:
  "snd (pose_errors (JetRacerController_init (0, 0) 0 0)
          \<lparr>position_x = 0, position_y = 0, orientation_x = 0, orientation_y = 0,
           orientation_z = 1, orientation_w = 0\<rparr>) = 0
   \<and> fst (pose_errors (JetRacerController_init (0, 0) 0 0)
          \<lparr>position_x = 0, position_y = 0, orientation_x = 0, orientation_y = 0,
           orientation_z = 1, orientation_w = 0\<rparr>) = - pi
   \<and> - pi \<noteq> 0"
  by (simp add: pose_errors_def JetRacerController_init_def euler_from_quaternion_def Let_def
      hypot_zero atan2_def angle_wrap_def loop1_stop loop2_stop)

text \<open>
  C3, amended. For every pose whose position equals the goal, the distance error is \<open>0\<close>
  and the heading error is \<open>angle_wrap (- yaw)\<close>, where \<open>yaw\<close> is the yaw of the pose's
  orientation; it is \<open>0\<close> when that yaw is \<open>0\<close>.
\<close>

theorem heading_error_at_goal:
  "position_x msg = fst (goal self) \<Longrightarrow> position_y msg = snd (goal self) \<Longrightarrow>
     snd (pose_errors self msg) = 0
     \<and> fst (pose_errors self msg) =
         angle_wrap (- snd (snd (euler_from_quaternion (orientation_x msg) (orientation_y msg)
                                   (orientation_z msg) (orientation_w msg))))
     \<and> (snd (snd (euler_from_quaternion (orientation_x msg) (orientation_y msg)
                     (orientation_z msg) (orientation_w msg))) = 0
          \<longrightarrow> fst (pose_errors self msg) = 0)"
  by (simp add: pose_errors_def Let_def split_def hypot_zero atan2_zero angle_wrap_def
      loop1_stop loop2_stop)

theorem heading_error_at_goal_witness:
  "(let self = JetRacerController_init (1, 2) 0 0;
        msg = \<lparr>position_x = 1, position_y = 2, orientation_x = 0, orientation_y = 0,
               orientation_z = 0, orientation_w = 1\<rparr>
    in position_x msg = fst (goal self) \<and> position_y msg = snd (goal self)
       \<and> snd (snd (euler_from_quaternion (orientation_x msg) (orientation_y msg)
                     (orientation_z msg) (orientation_w msg))) = 0
       \<and> snd (pose_errors self msg) = 0 \<and> fst (pose_errors self msg) = 0)"
  using heading_error_at_goal [of
      "\<lparr>position_x = 1, position_y = 2, orientation_x = 0, orientation_y = 0,
               orientation_z = 0, orientation_w = 1\<rparr>" "JetRacerController_init (1, 2) 0 0"]
  by (simp add: Let_def JetRacerController_init_def euler_from_quaternion_def atan2_def)

text \<open>
  C4. Whenever the distance error of a pose update is at most \<^verbatim>\<open>ERR_EPSILON\<close>, the
  published throttle is exactly \<open>0\<close>, whatever the distance PID controller returns. In
  the witness the raw PID output is \<open>0.065\<close> at distance \<open>0.1\<close>.
\<close>

theorem deadband_zero_throttle:
  "snd (pose_errors self msg) \<le> ERR_EPSILON \<Longrightarrow>
     throttle (fst (pose_callback self msg now1 now2)) = 0"
  by (simp add: throttle_pose_callback)

theorem deadband_zero_throttle_witness:
  "(let self = JetRacerController_init (0.1, 0) 0 0;
        msg = \<lparr>position_x = 0, position_y = 0, orientation_x = 0, orientation_y = 0,
               orientation_z = 0, orientation_w = 1\<rparr>
    in snd (pose_errors self msg) \<le> ERR_EPSILON
       \<and> fst (update (distance_pid self) (snd (pose_errors self msg)) 1) = 0.065
       \<and> throttle (fst (pose_callback self msg 1 1)) = 0)"
proof -
  have dist: "snd (pose_errors (JetRacerController_init (0.1, 0) 0 0)
                \<lparr>position_x = 0, position_y = 0, orientation_x = 0, orientation_y = 0,
                 orientation_z = 0, orientation_w = 1\<rparr>) = 0.1"
    by (simp add: pose_errors_def JetRacerController_init_def Let_def split_def hypot_axis)
  have raw: "fst (update (distance_pid (JetRacerController_init (0.1, 0) 0 0)) 0.1 1) = 0.065"
    by (simp add: update_def JetRacerController_init_def PIDController_init_def Let_def)
  have le: "snd (pose_errors (JetRacerController_init (0.1, 0) 0 0)
                \<lparr>position_x = 0, position_y = 0, orientation_x = 0, orientation_y = 0,
                 orientation_z = 0, orientation_w = 1\<rparr>) \<le> ERR_EPSILON"
    by (simp add: dist ERR_EPSILON_def)
  show ?thesis
    using deadband_zero_throttle [OF le, of 1 1] le raw
    by (simp add: Let_def dist)
qed

section \<open>Properties of process start\<close>

text \<open>
  \<^verbatim>\<open>argc\<close> is \<^verbatim>\<open>len(sys.argv)\<close> and counts the script name, while the guard compares it
  with \<open>2\<close>. So two coordinates on the command line end in the usage message, and the
  script never constructs the controller, whatever its arguments are.
\<close>

lemma main_two_coordinates_usage:
  "script_entry [''pid_official.py'', ''1.0'', ''2.0''] =
     \<lparr>printed = [USAGE], GOAL_after = [GInt 0, GInt 0], subscribed = False, outcome = Returned\<rparr>"
  by (simp add: script_entry_def main_def)

lemma script_entry_never_spins:
  "outcome (script_entry argv) \<noteq> Spinning \<and> \<not> subscribed (script_entry argv)"
  by (simp add: script_entry_def main_def X_ARG_def Y_ARG_def Let_def)

text \<open>
  C1, at one coordinate. With the command line \<^verbatim>\<open>pid_official.py 1.0\<close> the second
  coordinate is missing, the argument count passes the guard, nothing is printed, the
  first entry of \<^verbatim>\<open>GOAL\<close> is overwritten and the read of \<^verbatim>\<open>argv[Y_ARG]\<close> raises
  \<^verbatim>\<open>IndexError\<close>: the call fails without the usage message.
\<close>

theorem main_one_coordinate_raises:
  "script_entry [''pid_official.py'', ''1.0''] =
     \<lparr>printed = [], GOAL_after = [GStr ''1.0'', GInt 0], subscribed = False,
      outcome = Raised IndexError\<rparr>"
  by (simp add: script_entry_def main_def X_ARG_def Y_ARG_def)

section \<open>Properties of the pose handler on floats with NaN\<close>

lemma steering_pose_callback_f:
  "steering_f (fst (pose_callback_f self msg now1 now2)) =
     py_max (py_min (py_add (fst (update_f (heading_pid_f self) (fst (pose_errors_f self msg)) now1))
                       (Num HEADING_BIAS)) (Num 1.0)) (Num (- 1.0))"
  by (simp add: pose_callback_f_def Let_def split_def)

lemma throttle_pose_callback_f:
  "throttle_f (fst (pose_callback_f self msg now1 now2)) =
     (if py_gt (snd (pose_errors_f self msg)) (Num ERR_EPSILON)
      then py_max (py_min (fst (update_f (distance_pid_f self) (snd (pose_errors_f self msg)) now2))
                     (Num 0.2)) (Num 0.0)
      else Num 0.0)"
  by (simp add: pose_callback_f_def Let_def split_def)

lemma clamp_num:
  "lo \<le> hi \<Longrightarrow> py_max (py_min (Num r) (Num hi)) (Num lo) = Num (max (min r hi) lo)"
  by (simp add: py_max_def py_min_def py_gt_def max_def min_def)

lemma clamp_nan: "py_max (py_min NaN (Num hi)) (Num lo) = NaN"
  by (simp add: py_max_def py_min_def py_gt_def)

text \<open>
  The deadband does not depend on the state of the distance controller, NaN included:
  unless the distance error compares greater than \<^verbatim>\<open>ERR_EPSILON\<close>, the throttle is \<open>0\<close>.
\<close>

lemma deadband_zero_throttle_f:
  "\<not> py_gt (snd (pose_errors_f self msg)) (Num ERR_EPSILON) \<Longrightarrow>
     throttle_f (fst (pose_callback_f self msg now1 now2)) = Num 0"
  by (simp add: throttle_pose_callback_f)

text \<open>
  On numbers the handler of this model is the handler of the first model.
\<close>

lemma update_f_num:
  "update_f (num_pid c) (Num e) (Num t) = (Num (fst (update c e t)), num_pid (snd (update c e t)))"
  by (simp add: update_f_def update_def num_pid_def Let_def py_gt_def)

lemma euler_from_quaternion_f_num:
  "euler_from_quaternion_f (Num x) (Num y) (Num z) (Num w) =
     (Num (fst (euler_from_quaternion x y z w)),
      Num (fst (snd (euler_from_quaternion x y z w))),
      Num (snd (snd (euler_from_quaternion x y z w))))"
  by (simp add: euler_from_quaternion_f_def euler_from_quaternion_def Let_def py_gt_def)

lemma pose_errors_f_num:
  "pose_errors_f (num_controller c) (num_msg m) =
     (Num (fst (pose_errors c m)), Num (snd (pose_errors c m)))"
  by (simp add: pose_errors_f_def pose_errors_def num_controller_def num_msg_def
      euler_from_quaternion_f_num Let_def split_def)

lemma pose_callback_f_num:
  "pose_callback_f (num_controller c) (num_msg m) (Num now1) (Num now2) =
     (num_output (fst (pose_callback c m now1 now2)),
      num_controller (snd (pose_callback c m now1 now2)))"
proof -
  define he where "he = fst (pose_errors c m)"
  define gd where "gd = snd (pose_errors c m)"
  define s0 where "s0 = fst (update (heading_pid c) he now1)"
  define hp where "hp = snd (update (heading_pid c) he now1)"
  define t0 where "t0 = fst (update (distance_pid c) gd now2)"
  define dp where "dp = snd (update (distance_pid c) gd now2)"
  have e: "pose_errors_f (num_controller c) (num_msg m) = (Num he, Num gd)"
    unfolding he_def gd_def by (rule pose_errors_f_num)
  have uh: "update_f (heading_pid_f (num_controller c)) (Num he) (Num now1) = (Num s0, num_pid hp)"
    unfolding s0_def hp_def by (simp add: num_controller_def update_f_num)
  have ud: "update_f (distance_pid_f (num_controller c)) (Num gd) (Num now2) = (Num t0, num_pid dp)"
    unfolding t0_def dp_def by (simp add: num_controller_def update_f_num)
  have upd: "(num_controller c)\<lparr>heading_pid_f := num_pid hp, distance_pid_f := num_pid dp\<rparr>
               = num_controller (c\<lparr>heading_pid := hp, distance_pid := dp\<rparr>)"
    by (simp add: num_controller_def)
  have lhs: "pose_callback_f (num_controller c) (num_msg m) (Num now1) (Num now2) =
      (\<lparr>steering_f = Num (max (min (s0 + HEADING_BIAS) 1.0) (- 1.0)),
        throttle_f = Num (if gd > ERR_EPSILON then max (min t0 0.2) 0.0 else 0.0)\<rparr>,
       num_controller (c\<lparr>heading_pid := hp, distance_pid := dp\<rparr>))"
    by (simp add: pose_callback_f_def e uh ud upd clamp_num py_gt_def)
  have rhs: "pose_callback c m now1 now2 =
      (\<lparr>steering = max (min (s0 + HEADING_BIAS) 1.0) (- 1.0),
        throttle = (if gd > ERR_EPSILON then max (min t0 0.2) 0.0 else 0.0)\<rparr>,
       c\<lparr>heading_pid := hp, distance_pid := dp\<rparr>)"
    by (simp add: pose_callback_def Let_def split_def he_def gd_def s0_def hp_def t0_def dp_def)
  show ?thesis
    by (simp add: lhs rhs num_output_def)
qed

text \<open>
  C5, as the code has it. A pose whose \<open>x\<close> coordinate is NaN makes the heading error
  and the raw output of the heading controller NaN; \<^verbatim>\<open>min\<close> and \<^verbatim>\<open>max\<close> return the NaN,
  and the published steering is NaN, which is not in \<open>[-1, 1]\<close>.
\<close>

theorem steering_nan_counterexample:
  "steering_f (fst (pose_callback_f (JetRacerController_init_f (Num 0, Num 0) (Num 0) (Num 0))
       \<lparr>position_x_f = NaN, position_y_f = Num 0, orientation_x_f = Num 0,
        orientation_y_f = Num 0, orientation_z_f = Num 0, orientation_w_f = Num 1\<rparr>
       (Num 1) (Num 1))) = NaN
   \<and> \<not> (py_le (Num (- 1)) NaN \<and> py_le NaN (Num 1))"
  by (simp add: steering_pose_callback_f pose_errors_f_def euler_from_quaternion_f_def
      JetRacerController_init_f_def PIDController_init_f_def update_f_def Let_def py_gt_def
      clamp_nan)

text \<open>
  The NaN stays in the integrals of both controllers: at the next pose, a finite one
  outside the deadband, both published values are NaN.
\<close>

lemma nan_state_later_pose:
  "(let self0 = JetRacerController_init_f (Num 0, Num 0) (Num 0) (Num 0);
        self1 = snd (pose_callback_f self0
                  \<lparr>position_x_f = NaN, position_y_f = Num 0, orientation_x_f = Num 0,
                   orientation_y_f = Num 0, orientation_z_f = Num 0, orientation_w_f = Num 1\<rparr>
                  (Num 1) (Num 1));
        out = fst (pose_callback_f self1
                  \<lparr>position_x_f = Num 1, position_y_f = Num 0, orientation_x_f = Num 0,
                   orientation_y_f = Num 0, orientation_z_f = Num 0, orientation_w_f = Num 1\<rparr>
                  (Num 2) (Num 2))
    in steering_f out = NaN \<and> throttle_f out = NaN)"
  by (simp add: pose_callback_f_def pose_errors_f_def euler_from_quaternion_f_def
      JetRacerController_init_f_def PIDController_init_f_def update_f_def Let_def py_gt_def
      py_max_def py_min_def atan2_def hypot_axis angle_wrap_def loop1_stop loop2_stop
      ERR_EPSILON_def)

text \<open>
  C5, amended. For every pose update the published steering lies in \<open>[-1, 1]\<close> unless the
  raw output of the heading controller is NaN, and the published throttle lies in
  \<open>[0, 0.2]\<close> unless the distance error is above \<^verbatim>\<open>ERR_EPSILON\<close> and the raw output of the
  distance controller is NaN.
\<close>

theorem outputs_clamped_unless_nan:
  "(fst (update_f (heading_pid_f self) (fst (pose_errors_f self msg)) now1) \<noteq> NaN \<longrightarrow>
      py_le (Num (- 1)) (steering_f (fst (pose_callback_f self msg now1 now2)))
      \<and> py_le (steering_f (fst (pose_callback_f self msg now1 now2))) (Num 1))
   \<and> (fst (update_f (distance_pid_f self) (snd (pose_errors_f self msg)) now2) \<noteq> NaN
        \<or> \<not> py_gt (snd (pose_errors_f self msg)) (Num ERR_EPSILON) \<longrightarrow>
      py_le (Num 0) (throttle_f (fst (pose_callback_f self msg now1 now2)))
      \<and> py_le (throttle_f (fst (pose_callback_f self msg now1 now2))) (Num 0.2))"
proof -
  have s: "py_le (Num (- 1)) (steering_f (fst (pose_callback_f self msg now1 now2)))
           \<and> py_le (steering_f (fst (pose_callback_f self msg now1 now2))) (Num 1)"
    if "fst (update_f (heading_pid_f self) (fst (pose_errors_f self msg)) now1) \<noteq> NaN"
  proof -
    from that obtain r where
      "fst (update_f (heading_pid_f self) (fst (pose_errors_f self msg)) now1) = Num r"
      by (cases "fst (update_f (heading_pid_f self) (fst (pose_errors_f self msg)) now1)") auto
    then show ?thesis
      by (simp add: steering_pose_callback_f clamp_num)
  qed
  have t: "py_le (Num 0) (throttle_f (fst (pose_callback_f self msg now1 now2)))
           \<and> py_le (throttle_f (fst (pose_callback_f self msg now1 now2))) (Num 0.2)"
    if "fst (update_f (distance_pid_f self) (snd (pose_errors_f self msg)) now2) \<noteq> NaN
        \<or> \<not> py_gt (snd (pose_errors_f self msg)) (Num ERR_EPSILON)"
  proof (cases "py_gt (snd (pose_errors_f self msg)) (Num ERR_EPSILON)")
    case True
    with that obtain r where
      "fst (update_f (distance_pid_f self) (snd (pose_errors_f self msg)) now2) = Num r"
      by (cases "fst (update_f (distance_pid_f self) (snd (pose_errors_f self msg)) now2)") auto
    with True show ?thesis
      by (simp add: throttle_pose_callback_f clamp_num)
  next
    case False
    then show ?thesis
      by (simp add: throttle_pose_callback_f)
  qed
  from s t show ?thesis by blast
qed

theorem outputs_clamped_unless_nan_witness:
  "(let self = JetRacerController_init_f (Num 1, Num 0) (Num 0) (Num 0);
        msg = \<lparr>position_x_f = Num 0, position_y_f = Num 0, orientation_x_f = Num 0,
               orientation_y_f = Num 0, orientation_z_f = Num 0, orientation_w_f = Num 1\<rparr>
    in fst (update_f (heading_pid_f self) (fst (pose_errors_f self msg)) (Num 1)) \<noteq> NaN
       \<and> fst (update_f (distance_pid_f self) (snd (pose_errors_f self msg)) (Num 1)) \<noteq> NaN
       \<and> steering_f (fst (pose_callback_f self msg (Num 1) (Num 1))) = Num 0.04
       \<and> throttle_f (fst (pose_callback_f self msg (Num 1) (Num 1))) = Num 0.2
       \<and> py_le (Num (- 1)) (steering_f (fst (pose_callback_f self msg (Num 1) (Num 1))))
       \<and> py_le (steering_f (fst (pose_callback_f self msg (Num 1) (Num 1)))) (Num 1)
       \<and> py_le (Num 0) (throttle_f (fst (pose_callback_f self msg (Num 1) (Num 1))))
       \<and> py_le (throttle_f (fst (pose_callback_f self msg (Num 1) (Num 1)))) (Num 0.2))"
proof -
  define self where "self = JetRacerController_init_f (Num 1, Num 0) (Num 0) (Num 0)"
  define msg where "msg = \<lparr>position_x_f = Num 0, position_y_f = Num 0, orientation_x_f = Num 0,
               orientation_y_f = Num 0, orientation_z_f = Num 0, orientation_w_f = Num 1\<rparr>"
  have errs: "pose_errors_f self msg = (Num 0, Num 1)"
    by (simp add: self_def msg_def pose_errors_f_def euler_from_quaternion_f_def
        JetRacerController_init_f_def Let_def py_gt_def atan2_def hypot_axis
        angle_wrap_def loop1_stop loop2_stop)
  have raw_s: "fst (update_f (heading_pid_f self) (Num 0) (Num 1)) = Num 0"
    by (simp add: self_def JetRacerController_init_f_def PIDController_init_f_def update_f_def
        Let_def py_gt_def)
  have raw_t: "fst (update_f (distance_pid_f self) (Num 1) (Num 1)) = Num 0.65"
    by (simp add: self_def JetRacerController_init_f_def PIDController_init_f_def update_f_def
        Let_def py_gt_def)
  have st: "steering_f (fst (pose_callback_f self msg (Num 1) (Num 1))) = Num 0.04"
    by (simp add: steering_pose_callback_f errs raw_s clamp_num HEADING_BIAS_def)
  have th: "throttle_f (fst (pose_callback_f self msg (Num 1) (Num 1))) = Num 0.2"
    by (simp add: throttle_pose_callback_f errs raw_t clamp_num ERR_EPSILON_def py_gt_def)
  show ?thesis
    using outputs_clamped_unless_nan [of self msg "Num 1" "Num 1"]
    unfolding Let_def self_def [symmetric] msg_def [symmetric]
    by (simp add: errs raw_s raw_t st th)
qed

section \<open>Properties of angle_wrap in double precision\<close>

lemma round_even_cases: "round_even y = \<lfloor>y\<rfloor> \<or> round_even y = \<lfloor>y\<rfloor> + 1"
  by (simp add: round_even_def Let_def)

lemma round_even_error: "\<bar>of_int (round_even y) - y\<bar> \<le> 1 / 2"
proof -
  define f where "f = \<lfloor>y\<rfloor>"
  have f1: "of_int f \<le> y" and f2: "y < of_int f + 1"
    unfolding f_def by linarith+
  have r: "round_even y =
      (if y - of_int f < 1 / 2 then f else if y - of_int f > 1 / 2 then f + 1
       else if even f then f else f + 1)"
    by (simp add: round_even_def Let_def f_def)
  show ?thesis
  proof (cases "y - of_int f < 1 / 2")
    case True
    then have "round_even y = f" by (simp add: r)
    then show ?thesis using True f1 by simp
  next
    case False
    note nlt = False
    show ?thesis
    proof (cases "y - of_int f > 1 / 2")
      case True
      then have "round_even y = f + 1" using nlt by (simp add: r)
      then show ?thesis using True f2 by simp
    next
      case False
      with nlt have eq: "y - of_int f = 1 / 2" by simp
      have "round_even y = f \<or> round_even y = f + 1"
        by (simp add: r)
      then show ?thesis using eq by auto
    qed
  qed
qed

lemma round_even_ge: "of_int k \<le> y \<Longrightarrow> k \<le> round_even y"
proof -
  assume "of_int k \<le> y"
  then have "k \<le> \<lfloor>y\<rfloor>" by (simp add: le_floor_iff)
  then show ?thesis using round_even_cases [of y] by auto
qed

lemma round_even_le: "y \<le> of_int k \<Longrightarrow> round_even y \<le> k"
proof (cases "y = of_int k")
  case True
  then show ?thesis by (simp add: round_even_def Let_def)
next
  case False
  assume "y \<le> of_int k"
  with False have "y < of_int k" by simp
  then have "\<lfloor>y\<rfloor> < k" by (simp add: floor_less_iff)
  then show ?thesis using round_even_cases [of y] by auto
qed


lemma double_round_nonzero:
  "x \<noteq> 0 \<Longrightarrow>
     double_round x =
       of_int (round_even (x / 2 powr (of_int (\<lfloor>log 2 \<bar>x\<bar>\<rfloor> - 52))))
         * 2 powr (of_int (\<lfloor>log 2 \<bar>x\<bar>\<rfloor> - 52))"
  by (simp add: double_round_def Let_def)

lemma ulp_le:
  assumes "x \<noteq> 0"
  shows "2 powr (of_int (\<lfloor>log 2 \<bar>x\<bar>\<rfloor> - 52)) \<le> \<bar>x\<bar> / 2 ^ 52"
proof -
  have pos: "0 < \<bar>x\<bar>" using assms by simp
  have "real_of_int (\<lfloor>log 2 \<bar>x\<bar>\<rfloor> - 52) \<le> log 2 \<bar>x\<bar> - 52"
    by simp
  then have "2 powr (of_int (\<lfloor>log 2 \<bar>x\<bar>\<rfloor> - 52)) \<le> 2 powr (log 2 \<bar>x\<bar> - 52)"
    by (simp only: powr_le_cancel_iff [of 2]) 
  also have "\<dots> = 2 powr (log 2 \<bar>x\<bar>) / 2 powr 52"
    by (simp add: powr_diff)
  also have "\<dots> = \<bar>x\<bar> / 2 ^ 52"
    using pos by simp
  finally show ?thesis .
qed

lemma double_round_error: "\<bar>double_round x - x\<bar> \<le> \<bar>x\<bar> / 2 ^ 53"
proof (cases "x = 0")
  case True
  then show ?thesis by (simp add: double_round_def)
next
  case False
  define u :: real where "u = 2 powr (of_int (\<lfloor>log 2 \<bar>x\<bar>\<rfloor> - 52))"
  have upos: "0 < u" by (simp add: u_def)
  have ule: "u \<le> \<bar>x\<bar> / 2 ^ 52"
    unfolding u_def using False by (rule ulp_le)
  have dr: "double_round x = of_int (round_even (x / u)) * u"
    unfolding u_def using False by (rule double_round_nonzero)
  have "double_round x - x = (of_int (round_even (x / u)) - x / u) * u"
    using upos by (simp add: dr algebra_simps)
  then have "\<bar>double_round x - x\<bar> = \<bar>of_int (round_even (x / u)) - x / u\<bar> * u"
    using upos by (simp add: abs_mult)
  also have "\<dots> \<le> (1 / 2) * u"
    using round_even_error [of "x / u"] upos by (intro mult_right_mono) simp_all
  also have "\<dots> \<le> (1 / 2) * (\<bar>x\<bar> / 2 ^ 52)"
    using ule by simp
  also have "\<dots> = \<bar>x\<bar> / 2 ^ 53"
    by simp
  finally show ?thesis .
qed

lemma double_round_nonneg: "0 \<le> x \<Longrightarrow> 0 \<le> double_round x"
proof (cases "x = 0")
  case True
  then show ?thesis by (simp add: double_round_def)
next
  case False
  assume nn: "0 \<le> x"
  define u :: real where "u = 2 powr (of_int (\<lfloor>log 2 \<bar>x\<bar>\<rfloor> - 52))"
  have upos: "0 < u" by (simp add: u_def)
  have dr: "double_round x = of_int (round_even (x / u)) * u"
    unfolding u_def using False by (rule double_round_nonzero)
  have "of_int 0 \<le> x / u" using nn upos by simp
  then have "0 \<le> round_even (x / u)" by (rule round_even_ge)
  then show ?thesis using upos by (simp add: dr)
qed

lemma double_round_nonpos: "x \<le> 0 \<Longrightarrow> double_round x \<le> 0"
proof (cases "x = 0")
  case True
  then show ?thesis by (simp add: double_round_def)
next
  case False
  assume np: "x \<le> 0"
  define u :: real where "u = 2 powr (of_int (\<lfloor>log 2 \<bar>x\<bar>\<rfloor> - 52))"
  have upos: "0 < u" by (simp add: u_def)
  have dr: "double_round x = of_int (round_even (x / u)) * u"
    unfolding u_def using False by (rule double_round_nonzero)
  have "x / u \<le> of_int 0" using np upos by (simp add: divide_nonpos_pos)
  then have "round_even (x / u) \<le> 0" by (rule round_even_le)
  then show ?thesis using upos by (simp add: dr mult_nonpos_nonneg)
qed

lemma floor_log2_eq:
  assumes "2 ^ k \<le> y" "y < 2 ^ (Suc k)"
  shows "\<lfloor>log 2 y\<rfloor> = int k"
proof -
  have "(0::real) < 2 ^ k" by simp
  with assms(1) have pos: "0 < y" by linarith
  have "real k \<le> log 2 y"
    using assms(1) pos by (simp add: le_log_iff powr_realpow)
  moreover have "log 2 y < real k + 1"
    using assms(2) pos by (simp add: log_less_iff powr_realpow powr_add)
  ultimately show ?thesis
    by (simp add: floor_eq_iff)
qed


lemma math_pi_bounds: "3 < math_pi" "math_pi < 4"
  by (simp_all add: math_pi_def)

lemma double_round_ge_minus_pi:
  assumes "- math_pi \<le> x"
  shows "- math_pi \<le> double_round x"
proof -
  consider "0 \<le> x" | "- 2 < x" "x < 0" | "x \<le> - 2"
    by linarith
  then show ?thesis
  proof cases
    case 1
    then have "0 \<le> double_round x" by (rule double_round_nonneg)
    then show ?thesis using math_pi_bounds by linarith
  next
    case 2
    have "\<bar>double_round x - x\<bar> \<le> \<bar>x\<bar> / 2 ^ 53" by (rule double_round_error)
    moreover have "\<bar>x\<bar> / 2 ^ 53 \<le> 1"
      using 2 by simp
    ultimately show ?thesis using 2 math_pi_bounds by linarith
  next
    case 3
    have ne: "x \<noteq> 0" using 3 by simp
    have "2 ^ 1 \<le> \<bar>x\<bar>" "\<bar>x\<bar> < 2 ^ (Suc 1)"
      using 3 assms math_pi_bounds by simp_all
    then have "\<lfloor>log 2 \<bar>x\<bar>\<rfloor> = int 1" by (rule floor_log2_eq)
    then have e: "\<lfloor>log 2 \<bar>x\<bar>\<rfloor> - 52 = - 51" by simp
    have u: "(2::real) powr (of_int (- 51)) = 1 / 2 ^ 51"
      by (simp add: powr_minus_divide)
    have dr: "double_round x = of_int (round_even (x * 2 ^ 51)) / 2 ^ 51"
      using double_round_nonzero [OF ne] by (simp only: e u) simp
    have "of_int (- 7074237752028440) \<le> x * 2 ^ 51"
      using assms by (simp add: math_pi_def)
    then have "- 7074237752028440 \<le> round_even (x * 2 ^ 51)"
      by (rule round_even_ge)
    then have "real_of_int (- 7074237752028440) \<le> of_int (round_even (x * 2 ^ 51))"
      by (simp only: of_int_le_iff)
    then have "real_of_int (- 7074237752028440) / 2 ^ 51 \<le> double_round x"
      unfolding dr by (rule divide_right_mono) simp
    then show ?thesis by (simp add: math_pi_def)
  qed
qed

lemma double_round_le_pi:
  assumes "x \<le> math_pi"
  shows "double_round x \<le> math_pi"
proof -
  consider "x \<le> 0" | "0 < x" "x < 2" | "2 \<le> x"
    by linarith
  then show ?thesis
  proof cases
    case 1
    then have "double_round x \<le> 0" by (rule double_round_nonpos)
    then show ?thesis using math_pi_bounds by linarith
  next
    case 2
    have "\<bar>double_round x - x\<bar> \<le> \<bar>x\<bar> / 2 ^ 53" by (rule double_round_error)
    moreover have "\<bar>x\<bar> / 2 ^ 53 \<le> 1"
      using 2 by simp
    ultimately show ?thesis using 2 math_pi_bounds by linarith
  next
    case 3
    have ne: "x \<noteq> 0" using 3 by simp
    have "2 ^ 1 \<le> \<bar>x\<bar>" "\<bar>x\<bar> < 2 ^ (Suc 1)"
      using 3 assms math_pi_bounds by simp_all
    then have "\<lfloor>log 2 \<bar>x\<bar>\<rfloor> = int 1" by (rule floor_log2_eq)
    then have e: "\<lfloor>log 2 \<bar>x\<bar>\<rfloor> - 52 = - 51" by simp
    have u: "(2::real) powr (of_int (- 51)) = 1 / 2 ^ 51"
      by (simp add: powr_minus_divide)
    have dr: "double_round x = of_int (round_even (x * 2 ^ 51)) / 2 ^ 51"
      using double_round_nonzero [OF ne] by (simp only: e u) simp
    have "x * 2 ^ 51 \<le> of_int 7074237752028440"
      using assms by (simp add: math_pi_def)
    then have "round_even (x * 2 ^ 51) \<le> 7074237752028440"
      by (rule round_even_le)
    then have "real_of_int (round_even (x * 2 ^ 51)) \<le> of_int 7074237752028440"
      by (simp only: of_int_le_iff)
    then have "double_round x \<le> real_of_int 7074237752028440 / 2 ^ 51"
      unfolding dr by (rule divide_right_mono) simp
    then show ?thesis by (simp add: math_pi_def)
  qed
qed

text \<open>
  At \<open>10 ^ 17\<close> the doubles are \<open>16\<close> apart, so subtracting \<^verbatim>\<open>2 * math.pi\<close> rounds back to
  \<open>10 ^ 17\<close>, which is a double itself.
\<close>

lemma double_round_representable: "double_round (100000000000000000) = 100000000000000000"
proof -
  have "2 ^ 56 \<le> \<bar>100000000000000000 :: real\<bar>" "\<bar>100000000000000000 :: real\<bar> < 2 ^ (Suc 56)"
    by simp_all
  then have "\<lfloor>log 2 \<bar>100000000000000000 :: real\<bar>\<rfloor> = int 56" by (rule floor_log2_eq)
  then have e: "\<lfloor>log 2 \<bar>100000000000000000 :: real\<bar>\<rfloor> - 52 = 4" by simp
  have u: "(2::real) powr (of_int 4) = 16"
    by simp
  have ne: "(100000000000000000 :: real) \<noteq> 0" by simp
  have dr: "double_round (100000000000000000) = of_int (round_even (100000000000000000 / 16)) * 16"
    using double_round_nonzero [OF ne] by (simp only: e u)
  have "round_even (100000000000000000 / 16) = 6250000000000000"
    by (simp add: round_even_def Let_def)
  then have "double_round 100000000000000000 = of_int 6250000000000000 * 16"
    by (simp only: dr)
  then show ?thesis by simp
qed

lemma double_round_absorbs:
  "double_round (100000000000000000 - 2 * math_pi) = 100000000000000000"
proof -
  define x :: real where "x = 100000000000000000 - 2 * math_pi"
  have xpos: "0 < x" by (simp add: x_def math_pi_def)
  have "2 ^ 56 \<le> \<bar>x\<bar>" "\<bar>x\<bar> < 2 ^ (Suc 56)"
    by (simp_all add: x_def math_pi_def)
  then have "\<lfloor>log 2 \<bar>x\<bar>\<rfloor> = int 56" by (rule floor_log2_eq)
  then have e: "\<lfloor>log 2 \<bar>x\<bar>\<rfloor> - 52 = 4" by simp
  have u: "(2::real) powr (of_int 4) = 16"
    by simp
  have ne: "x \<noteq> 0" using xpos by simp
  have dr: "double_round x = of_int (round_even (x / 16)) * 16"
    using double_round_nonzero [OF ne] by (simp only: e u)
  have fl: "\<lfloor>x / 16\<rfloor> = 6249999999999999"
    by (rule floor_unique) (simp_all add: x_def math_pi_def)
  have "x / 16 - of_int \<lfloor>x / 16\<rfloor> > 1 / 2"
    unfolding fl by (simp add: x_def math_pi_def)
  then have "round_even (x / 16) = \<lfloor>x / 16\<rfloor> + 1"
    by (simp add: round_even_def Let_def)
  then have "round_even (x / 16) = 6250000000000000"
    by (simp add: fl)
  then show ?thesis
    unfolding x_def [symmetric] by (simp add: dr)
qed

lemma loop1_stuck:
  assumes "angle_wrap_d_loop1 angle n = Some r"
  shows "angle \<noteq> 100000000000000000"
proof (rule angle_wrap_d_loop1.raw_induct
    [where P = "\<lambda>a n r. a \<noteq> 100000000000000000", OF _ assms])
  fix loop :: "real \<Rightarrow> nat \<Rightarrow> (real \<times> nat) option" and a :: real and k :: nat and y
  assume IH: "\<And>a' k' y'. loop a' k' = Some y' \<Longrightarrow> a' \<noteq> 100000000000000000"
  assume body: "(if math_pi < a then loop (double_round (a - 2 * math_pi)) (Suc k)
                 else Some (a, k)) = Some y"
  show "a \<noteq> 100000000000000000"
  proof
    assume at: "a = 100000000000000000"
    have "math_pi < a"
      by (simp add: at math_pi_def)
    with body have "loop (double_round (a - 2 * math_pi)) (Suc k) = Some y"
      by simp
    then have "loop 100000000000000000 (Suc k) = Some y"
      by (simp only: at double_round_absorbs)
    then have "(100000000000000000 :: real) \<noteq> 100000000000000000"
      by (rule IH)
    then show False by simp
  qed
qed

text \<open>
  C8, as the code has it. At the finite double \<open>10 ^ 17\<close> the first loop never exits:
  \<^verbatim>\<open>angle_wrap\<close> does not return.
\<close>

theorem angle_wrap_large_double_counterexample: "angle_wrap_d (100000000000000000) = None"
proof -
  have "angle_wrap_d_loop1 (100000000000000000) 0 = None"
  proof (cases "angle_wrap_d_loop1 (100000000000000000) 0")
    case None
    then show ?thesis .
  next
    case (Some r)
    then have "(100000000000000000 :: real) \<noteq> 100000000000000000" by (rule loop1_stuck)
    then show ?thesis by simp
  qed
  then show ?thesis by (simp add: angle_wrap_d_def)
qed

lemma loop1_d_stop: "angle \<le> math_pi \<Longrightarrow> angle_wrap_d_loop1 angle n = Some (angle, n)"
  by (subst angle_wrap_d_loop1.simps) simp

lemma loop2_d_stop: "- math_pi \<le> angle \<Longrightarrow> angle_wrap_d_loop2 angle n = Some (angle, n)"
  by (subst angle_wrap_d_loop2.simps) simp

lemma loop1_d_step:
  "math_pi < angle \<Longrightarrow>
     angle_wrap_d_loop1 angle n = angle_wrap_d_loop1 (double_round (angle - 2 * math_pi)) (Suc n)"
  by (subst angle_wrap_d_loop1.simps) simp

lemma loop2_d_step:
  "angle < - math_pi \<Longrightarrow>
     angle_wrap_d_loop2 angle n = angle_wrap_d_loop2 (double_round (angle + 2 * math_pi)) (Suc n)"
  by (subst angle_wrap_d_loop2.simps) simp

lemma step_down:
  assumes "math_pi < angle" "angle \<le> 2 ^ 53"
  shows "double_round (angle - 2 * math_pi) \<le> angle - 5"
    and "- math_pi \<le> double_round (angle - 2 * math_pi)"
proof -
  have "\<bar>angle - 2 * math_pi\<bar> \<le> 2 ^ 53"
    using assms math_pi_bounds by (simp add: abs_le_iff)
  then have "\<bar>angle - 2 * math_pi\<bar> / 2 ^ 53 \<le> 1"
    by simp
  with double_round_error [of "angle - 2 * math_pi"]
  have "\<bar>double_round (angle - 2 * math_pi) - (angle - 2 * math_pi)\<bar> \<le> 1"
    by linarith
  then show "double_round (angle - 2 * math_pi) \<le> angle - 5"
    using math_pi_bounds by linarith
  have "- math_pi \<le> angle - 2 * math_pi"
    using assms by linarith
  then show "- math_pi \<le> double_round (angle - 2 * math_pi)"
    by (rule double_round_ge_minus_pi)
qed

lemma step_up:
  assumes "angle < - math_pi" "- (2 ^ 53) \<le> angle"
  shows "angle + 5 \<le> double_round (angle + 2 * math_pi)"
    and "double_round (angle + 2 * math_pi) \<le> math_pi"
proof -
  have "\<bar>angle + 2 * math_pi\<bar> \<le> 2 ^ 53"
    using assms math_pi_bounds by (simp add: abs_le_iff)
  then have "\<bar>angle + 2 * math_pi\<bar> / 2 ^ 53 \<le> 1"
    by simp
  with double_round_error [of "angle + 2 * math_pi"]
  have "\<bar>double_round (angle + 2 * math_pi) - (angle + 2 * math_pi)\<bar> \<le> 1"
    by linarith
  then show "angle + 5 \<le> double_round (angle + 2 * math_pi)"
    using math_pi_bounds by linarith
  have "angle + 2 * math_pi \<le> math_pi"
    using assms by linarith
  then show "double_round (angle + 2 * math_pi) \<le> math_pi"
    by (rule double_round_le_pi)
qed

lemma loop1_d_returns:
  "math_pi < angle \<Longrightarrow> angle \<le> 2 ^ 53 \<Longrightarrow> angle \<le> 3 * real k \<Longrightarrow>
     \<exists>v m. angle_wrap_d_loop1 angle n = Some (v, m)
        \<and> - math_pi \<le> v \<and> v \<le> math_pi \<and> real m \<le> real n + angle / 3"
proof (induction k arbitrary: angle n)
  case 0
  then show ?case using math_pi_bounds by simp
next
  case (Suc k)
  define a' where "a' = double_round (angle - 2 * math_pi)"
  have down: "a' \<le> angle - 5" and low: "- math_pi \<le> a'"
    unfolding a'_def using Suc.prems(1,2) by (rule step_down)+
  have unfold: "angle_wrap_d_loop1 angle n = angle_wrap_d_loop1 a' (Suc n)"
    unfolding a'_def using Suc.prems(1) by (rule loop1_d_step)
  show ?case
  proof (cases "math_pi < a'")
    case True
    have "a' \<le> 2 ^ 53" using down Suc.prems(2) by linarith
    moreover have "a' \<le> 3 * real k" using down Suc.prems(3) by simp
    ultimately obtain v m where
      r: "angle_wrap_d_loop1 a' (Suc n) = Some (v, m)"
      and b: "- math_pi \<le> v" "v \<le> math_pi" "real m \<le> real (Suc n) + a' / 3"
      using Suc.IH [OF True, of "Suc n"] by blast
    have "real m \<le> real n + angle / 3"
      using b(3) down by simp
    with r b(1,2) unfold show ?thesis by simp
  next
    case False
    then have "angle_wrap_d_loop1 a' (Suc n) = Some (a', Suc n)"
      by (simp add: loop1_d_stop)
    moreover have "real (Suc n) \<le> real n + angle / 3"
      using Suc.prems(1) math_pi_bounds by simp
    ultimately show ?thesis
      using False low unfold by simp
  qed
qed

lemma loop2_d_returns:
  "angle < - math_pi \<Longrightarrow> - (2 ^ 53) \<le> angle \<Longrightarrow> - angle \<le> 3 * real k \<Longrightarrow>
     \<exists>v m. angle_wrap_d_loop2 angle n = Some (v, m)
        \<and> - math_pi \<le> v \<and> v \<le> math_pi \<and> real m \<le> real n + (- angle) / 3"
proof (induction k arbitrary: angle n)
  case 0
  then show ?case using math_pi_bounds by simp
next
  case (Suc k)
  define a' where "a' = double_round (angle + 2 * math_pi)"
  have up: "angle + 5 \<le> a'" and high: "a' \<le> math_pi"
    unfolding a'_def using Suc.prems(1,2) by (rule step_up)+
  have unfold: "angle_wrap_d_loop2 angle n = angle_wrap_d_loop2 a' (Suc n)"
    unfolding a'_def using Suc.prems(1) by (rule loop2_d_step)
  show ?case
  proof (cases "a' < - math_pi")
    case True
    have "- (2 ^ 53) \<le> a'" using up Suc.prems(2) by linarith
    moreover have "- a' \<le> 3 * real k" using up Suc.prems(3) by simp
    ultimately obtain v m where
      r: "angle_wrap_d_loop2 a' (Suc n) = Some (v, m)"
      and b: "- math_pi \<le> v" "v \<le> math_pi" "real m \<le> real (Suc n) + (- a') / 3"
      using Suc.IH [OF True, of "Suc n"] by blast
    have "real m \<le> real n + (- angle) / 3"
      using b(3) up by simp
    with r b(1,2) unfold show ?thesis by simp
  next
    case False
    then have "angle_wrap_d_loop2 a' (Suc n) = Some (a', Suc n)"
      by (simp add: loop2_d_stop)
    moreover have "real (Suc n) \<le> real n + (- angle) / 3"
      using Suc.prems(1) math_pi_bounds by simp
    ultimately show ?thesis
      using False high unfold by simp
  qed
qed

text \<open>
  C8, amended. For every input of magnitude at most \<open>2 ^ 53\<close>, \<^verbatim>\<open>angle_wrap\<close> terminates,
  after at most \<open>|angle| / 3\<close> loop iterations, with a result in \<open>[-math.pi, math.pi]\<close>.
\<close>

theorem angle_wrap_d_returns:
  "\<bar>angle\<bar> \<le> 2 ^ 53 \<Longrightarrow>
     \<exists>v n. angle_wrap_d angle = Some (v, n)
        \<and> real n \<le> \<bar>angle\<bar> / 3 \<and> - math_pi \<le> v \<and> v \<le> math_pi"
proof -
  assume bound: "\<bar>angle\<bar> \<le> 2 ^ 53"
  consider "math_pi < angle" | "angle < - math_pi" | "- math_pi \<le> angle" "angle \<le> math_pi"
    by linarith
  then show ?thesis
  proof cases
    case 1
    have "angle \<le> 2 ^ 53" using bound by simp
    moreover have "angle \<le> 3 * real (nat \<lceil>angle / 3\<rceil>)"
      using real_nat_ceiling_ge [of "angle / 3"] by simp
    ultimately obtain v m where
      r: "angle_wrap_d_loop1 angle 0 = Some (v, m)"
      and b: "- math_pi \<le> v" "v \<le> math_pi" "real m \<le> real 0 + angle / 3"
      using loop1_d_returns [OF 1, of "nat \<lceil>angle / 3\<rceil>" 0] by blast
    have "angle_wrap_d angle = Some (v, m)"
      using r b(1) by (simp add: angle_wrap_d_def loop2_d_stop)
    moreover have "real m \<le> \<bar>angle\<bar> / 3"
      using b(3) 1 math_pi_bounds by simp
    ultimately show ?thesis using b(1,2) by blast
  next
    case 2
    have first: "angle_wrap_d_loop1 angle 0 = Some (angle, 0)"
      using 2 math_pi_bounds by (simp add: loop1_d_stop)
    have "- (2 ^ 53) \<le> angle" using bound by simp
    moreover have "- angle \<le> 3 * real (nat \<lceil>- angle / 3\<rceil>)"
      using real_nat_ceiling_ge [of "- angle / 3"] by simp
    ultimately obtain v m where
      r: "angle_wrap_d_loop2 angle 0 = Some (v, m)"
      and b: "- math_pi \<le> v" "v \<le> math_pi" "real m \<le> real 0 + (- angle) / 3"
      using loop2_d_returns [OF 2, of "nat \<lceil>- angle / 3\<rceil>" 0] by blast
    have "angle_wrap_d angle = Some (v, m)"
      using first r by (simp add: angle_wrap_d_def)
    moreover have "real m \<le> \<bar>angle\<bar> / 3"
      using b(3) 2 math_pi_bounds by simp
    ultimately show ?thesis using b(1,2) by blast
  next
    case 3
    then have "angle_wrap_d angle = Some (angle, 0)"
      by (simp add: angle_wrap_d_def loop1_d_stop loop2_d_stop)
    then show ?thesis using 3 by simp
  qed
qed

lemma double_round_four_minus_two_pi:
  "double_round (4 - 2 * math_pi) = 4 - 2 * math_pi"
proof -
  define x :: real where "x = 4 - 2 * math_pi"
  have ne: "x \<noteq> 0" by (simp add: x_def math_pi_def)
  have "2 ^ 1 \<le> \<bar>x\<bar>" "\<bar>x\<bar> < 2 ^ (Suc 1)"
    by (simp_all add: x_def math_pi_def)
  then have "\<lfloor>log 2 \<bar>x\<bar>\<rfloor> = int 1" by (rule floor_log2_eq)
  then have e: "\<lfloor>log 2 \<bar>x\<bar>\<rfloor> - 52 = - 51" by simp
  have u: "(2::real) powr (of_int (- 51)) = 1 / 2 ^ 51"
    by (simp add: powr_minus_divide)
  have dr: "double_round x = of_int (round_even (x * 2 ^ 51)) / 2 ^ 51"
    using double_round_nonzero [OF ne] by (simp only: e u) simp
  have int: "x * 2 ^ 51 = of_int (- 5141276249315888)"
    by (simp add: x_def math_pi_def)
  have "round_even (x * 2 ^ 51) = - 5141276249315888"
    unfolding int by (simp add: round_even_def Let_def)
  then have "double_round x = of_int (- 5141276249315888) / 2 ^ 51"
    by (simp only: dr)
  also have "\<dots> = x"
    by (simp add: x_def math_pi_def)
  finally show ?thesis
    unfolding x_def .
qed

lemma angle_wrap_d_four: "angle_wrap_d 4 = Some (4 - 2 * math_pi, 1)"
proof -
  have gt: "math_pi < 4" by (rule math_pi_bounds)
  have "angle_wrap_d_loop1 4 0 = angle_wrap_d_loop1 (4 - 2 * math_pi) (Suc 0)"
    using loop1_d_step [OF gt, of 0] by (simp only: double_round_four_minus_two_pi)
  also have "\<dots> = Some (4 - 2 * math_pi, Suc 0)"
    by (rule loop1_d_stop) (simp add: math_pi_def)
  finally have "angle_wrap_d_loop1 4 0 = Some (4 - 2 * math_pi, Suc 0)" .
  moreover have "angle_wrap_d_loop2 (4 - 2 * math_pi) (Suc 0) = Some (4 - 2 * math_pi, Suc 0)"
    by (rule loop2_d_stop) (simp add: math_pi_def)
  ultimately show ?thesis
    by (simp add: angle_wrap_d_def)
qed

theorem angle_wrap_d_returns_witness:
  "\<bar>4 :: real\<bar> \<le> 2 ^ 53
   \<and> angle_wrap_d 4 = Some (4 - 2 * math_pi, 1)
   \<and> real 1 \<le> \<bar>4 :: real\<bar> / 3 \<and> - math_pi \<le> 4 - 2 * math_pi \<and> 4 - 2 * math_pi \<le> math_pi"
  using angle_wrap_d_returns [of 4] angle_wrap_d_four by simp

end
